theory Spec2Isabelle
  imports Main
begin

section \<open>Control signals and prompt results\<close>

text \<open>
  The wizard of \<^verbatim>\<open>wizard.ts\<close> drives a sequence of prompts. A prompt resolves to a
  \<^verbatim>\<open>PromptResult<T> = T | WizardControl | undefined\<close>. The enum \<^verbatim>\<open>ControlSignal\<close> is
  declared by the state controller; the wizard uses its members \<^verbatim>\<open>Exit\<close>,
  \<^verbatim>\<open>Back\<close> and \<^verbatim>\<open>Retry\<close>.
\<close>

datatype ControlSignal = Retry | Exit | Back

text \<open>
  \<^verbatim>\<open>WizardControl\<close> is a class with one field \<^verbatim>\<open>type\<close>. The module allocates four
  instances, and the code compares responses with them by reference (\<^verbatim>\<open>===\<close>,
  \<^verbatim>\<open>includes\<close>). Each module constant is therefore a constructor of its own, and any
  other instance is \<open>NewWizardControl n t\<close>, where \<open>n\<close> stands for its identity.
\<close>

datatype WizardControl =
    WIZARD_FORCE_EXIT
  | WIZARD_EXIT
  | WIZARD_BACK
  | WIZARD_RETRY
  | NewWizardControl nat ControlSignal

fun type :: "WizardControl \<Rightarrow> ControlSignal" where
  "type WIZARD_FORCE_EXIT = Exit"
| "type WIZARD_EXIT = Exit"
| "type WIZARD_BACK = Back"
| "type WIZARD_RETRY = Retry"
| "type (NewWizardControl n t) = t"

datatype 'a PromptResult = Undefined | Control WizardControl | Answer 'a

fun isWizardControl :: "'a PromptResult \<Rightarrow> bool" where
  "isWizardControl (Control c) = True"
| "isWizardControl Undefined = False"
| "isWizardControl (Answer a) = False"

definition isValidResponse :: "'a PromptResult \<Rightarrow> bool" where
  "isValidResponse response = (response \<noteq> Undefined \<and> \<not> isWizardControl response)"

definition shouldDispose :: "'a PromptResult \<Rightarrow> bool" where
  "shouldDispose signal =
     List.member [Control WIZARD_EXIT, Control WIZARD_BACK, Control WIZARD_FORCE_EXIT] signal"

section \<open>State, caches, prompters\<close>

text \<open>
  The state is an object keyed by property name. A key can be present and hold
  \<^verbatim>\<open>undefined\<close> (that is what \<^verbatim>\<open>_.set(state, prop, undefined)\<close> leaves behind), so a
  stored value is an \<open>'a option\<close> with \<open>None\<close> for \<^verbatim>\<open>undefined\<close>. Property names are
  taken as single keys: a name is never split into a path of nested objects.
\<close>

type_synonym 'a TState = "string \<rightharpoonup> 'a option"

definition lodash_set :: "'a TState \<Rightarrow> string \<Rightarrow> 'a option \<Rightarrow> 'a TState" where
  "lodash_set state prop v = state(prop \<mapsto> v)"

definition lodash_get :: "'a TState \<Rightarrow> string \<Rightarrow> 'a option" where
  "lodash_get state prop = (case state prop of None \<Rightarrow> None | Some v \<Rightarrow> v)"

definition cloneDeep :: "'a TState \<Rightarrow> 'a TState" where
  "cloneDeep state = state"

text \<open>A response that passed the estimator's guard is a value of \<^verbatim>\<open>T\<close> or \<^verbatim>\<open>undefined\<close>.\<close>

fun responseValue :: "'a PromptResult \<Rightarrow> 'a option" where
  "responseValue (Answer a) = Some a"
| "responseValue Undefined = None"
| "responseValue (Control c) = None"

record 'a StepCache =
  picked :: "'a option"
  stepOffset :: "(int \<times> int) option"

definition emptyCache :: "'a StepCache" where
  "emptyCache = \<lparr>picked = None, stepOffset = None\<rparr>"

record 'a PrompterOptions =
  cache :: "'a StepCache"
  stepEstimator :: "'a PromptResult \<Rightarrow> int"
  steps :: "int \<times> int"

text \<open>
  Modelled from the spec: the class \<^verbatim>\<open>Prompter\<close> (\<^verbatim>\<open>shared/ui/prompter\<close>) is a
  collaborator of the wizard. Its interface is a mutable \<^verbatim>\<open>recentItem\<close>, a number
  \<^verbatim>\<open>totalSteps\<close>, \<^verbatim>\<open>configure(options)\<close>, \<^verbatim>\<open>dispose()\<close> and the
  blocking \<^verbatim>\<open>promptControl()\<close>. The record keeps what the wizard reads and what it
  did to the prompter: the options of the last \<^verbatim>\<open>configure\<close> and the number of calls of
  \<^verbatim>\<open>dispose\<close>.
\<close>

record 'a Prompter =
  recentItem :: "'a option"
  prompter_totalSteps :: int
  configured :: "'a PrompterOptions option"
  disposed :: nat

definition configure :: "'a Prompter \<Rightarrow> 'a PrompterOptions \<Rightarrow> 'a Prompter" where
  "configure prompter options = prompter\<lparr>configured := Some options\<rparr>"

definition dispose :: "'a Prompter \<Rightarrow> 'a Prompter" where
  "dispose prompter = prompter\<lparr>disposed := Suc (disposed prompter)\<rparr>"

text \<open>
  What the widget does while \<^verbatim>\<open>promptControl()\<close> is pending is a parameter of the
  model: from the prompter as configured and the cache object it was given, it yields
  the response, the prompter as it is when the promise settles, and the cache as the
  prompter left it.
\<close>

type_synonym 'a PromptControl =
  "'a Prompter \<Rightarrow> 'a StepCache \<Rightarrow> 'a PromptResult \<times> 'a Prompter \<times> 'a StepCache"

section \<open>The wizard\<close>

text \<open>
  A step function is a closure, compared by reference by the controller. The bound
  step of a property is named by the property, the exit step is one more step.
\<close>

datatype Step = BoundStep string | ExitStep

record 'a StepResult =
  nextState :: "'a TState"
  nextSteps :: "Step list option"
  controlSignal :: "ControlSignal option"

text \<open>
  The form and the state controller are collaborators too; the wizard calls
  \<^verbatim>\<open>canShowProperty\<close> and \<^verbatim>\<open>applyDefaults\<close> of the one and \<^verbatim>\<open>containsStep\<close>,
  \<^verbatim>\<open>currentStep\<close> and \<^verbatim>\<open>totalSteps\<close> of the other. They are taken as they are at
  the moment of the call.
\<close>

record 'a WizardForm =
  canShowProperty :: "string \<Rightarrow> 'a TState \<Rightarrow> string set \<Rightarrow> bool"
  applyDefaults :: "'a TState \<Rightarrow> string set \<Rightarrow> 'a TState"

record StateMachineController =
  containsStep :: "Step \<Rightarrow> bool"
  controller_currentStep :: int
  controller_totalSteps :: int

text \<open>
  The fields of the class \<^verbatim>\<open>Wizard\<close>. \<open>boundSteps\<close> is a \<^verbatim>\<open>Map\<close>, iterated in
  insertion order: a list of pairs. The private fields \<^verbatim>\<open>_form\<close>,
  \<^verbatim>\<open>_stepOffset\<close> and \<^verbatim>\<open>_estimator\<close> are prefixed with the class name instead of the underscore.
\<close>

record 'a Wizard =
  boundSteps :: "(string \<times> Step) list"
  wizard_form :: "'a WizardForm"
  caches :: "string \<rightharpoonup> 'a StepCache"
  stateController :: StateMachineController
  wizard_stepOffset :: "int \<times> int"
  exitStep :: "Step option"
  running :: bool
  wizard_estimator :: "('a TState \<Rightarrow> int) option"
  implicitState :: "'a TState option"

text \<open>The accessors of lines 71-79 and 90-103; an accessor that throws returns the error.\<close>

definition set_stepOffset :: "'a Wizard \<Rightarrow> int \<times> int \<Rightarrow> 'a Wizard" where
  "set_stepOffset w offset = w\<lparr>wizard_stepOffset := offset\<rparr>"

definition currentStep :: "'a Wizard \<Rightarrow> int" where
  "currentStep w = fst (wizard_stepOffset w) + controller_currentStep (stateController w)"

definition totalSteps :: "'a Wizard \<Rightarrow> int" where
  "totalSteps w = snd (wizard_stepOffset w) + controller_totalSteps (stateController w)"

datatype Error = Error string

definition get_cache :: "'a Wizard \<Rightarrow> Error + (string \<rightharpoonup> 'a StepCache)" where
  "get_cache w =
     (if running w then Inl (Error ''Cannot retrieve cache while wizard is running.'')
      else Inr (caches w))"

definition set_cache :: "'a Wizard \<Rightarrow> (string \<rightharpoonup> 'a StepCache) \<Rightarrow> Error + 'a Wizard" where
  "set_cache w cache' =
     (if running w then Inl (Error ''Cannot set cache while wizard is running.'')
      else Inr (w\<lparr>caches := cache'\<rparr>))"

definition set_parentEstimator :: "'a Wizard \<Rightarrow> ('a TState \<Rightarrow> int) \<Rightarrow> 'a Wizard" where
  "set_parentEstimator w estimator' = w\<lparr>wizard_estimator := Some estimator'\<rparr>"

subsection \<open>Step resolution\<close>

text \<open>
  \<^verbatim>\<open>getAssigned\<close> (lines 202-206): the keys of \<open>boundSteps\<close> whose step the controller
  contains. \<^verbatim>\<open>boundSteps.get(key)\<close> is \<open>map_of\<close>; it is applied to keys of the map only.
\<close>

definition getAssigned :: "'a Wizard \<Rightarrow> string set" where
  "getAssigned w =
     set (filter (\<lambda>key. containsStep (stateController w) (the (map_of (boundSteps w) key)))
            (map fst (boundSteps w)))"

text \<open>
  \<^verbatim>\<open>resolveNextSteps\<close> (lines 208-221). First the body of \<^verbatim>\<open>boundSteps.forEach\<close>,
  with the two local variables \<^verbatim>\<open>nextSteps\<close> and \<^verbatim>\<open>currentlyAssigned\<close> it updates.
\<close>

fun resolveNextSteps_forEach ::
  "'a Wizard \<Rightarrow> 'a TState \<Rightarrow> (string \<times> Step) list \<Rightarrow> Step list \<Rightarrow> string set \<Rightarrow> Step list"
where
  "resolveNextSteps_forEach w state [] nextSteps' currentlyAssigned = nextSteps'"
| "resolveNextSteps_forEach w state ((targetProp, step) # rest) nextSteps' currentlyAssigned =
     (if canShowProperty (wizard_form w) targetProp state currentlyAssigned
         \<and> \<not> containsStep (stateController w) step
      then resolveNextSteps_forEach w state rest (nextSteps' @ [step])
             (insert targetProp currentlyAssigned)
      else resolveNextSteps_forEach w state rest nextSteps' currentlyAssigned)"

text \<open>The parameter \<^verbatim>\<open>assigned\<close> is optional and defaults to \<^verbatim>\<open>this.getAssigned()\<close>.\<close>

definition resolveNextSteps :: "'a Wizard \<Rightarrow> 'a TState \<Rightarrow> string set option \<Rightarrow> Step list" where
  "resolveNextSteps w state assigned =
     resolveNextSteps_forEach w state (boundSteps w) []
       (case assigned of None \<Rightarrow> getAssigned w | Some a \<Rightarrow> a)"

subsection \<open>The step estimator\<close>

text \<open>
  The closure returned by \<^verbatim>\<open>createStepEstimator\<close> (lines 144-155), as a function of the content of
  its captured variable \<^verbatim>\<open>state\<close>; it returns the estimate and the content the
  variable is left with. The parent estimator is called with that object and is taken
  as a function of its content.
\<close>

definition stepEstimator ::
  "'a Wizard \<Rightarrow> string \<Rightarrow> 'a PromptResult \<Rightarrow> 'a TState \<Rightarrow> int \<times> 'a TState"
where
  "stepEstimator w prop response state =
     (if response \<noteq> Undefined \<and> \<not> isValidResponse response then (0, state)
      else
        let state1 = lodash_set state prop (responseValue response);
            estimate = int (length (resolveNextSteps w state1 (Some {prop})));
            parentEstimate = (case wizard_estimator w of Some e \<Rightarrow> e state1 | None \<Rightarrow> 0);
            state2 = lodash_set state1 prop None
        in (estimate + parentEstimate, state2))"

text \<open>
  Objects are shared by reference in the source, and \<^verbatim>\<open>_.cloneDeep\<close> is what
  separates the estimator's object from the one the steps write to. Where that matters
  the state objects live in a heap, a list addressed by position, next to the wizard.
  \<^verbatim>\<open>createStepEstimator\<close> allocates the copy; the closure is the pair of its captured
  variables. A reference handed to \<^verbatim>\<open>createStepEstimator\<close> is an address of the heap.
\<close>

record 'a World =
  wizard :: "'a Wizard"
  heap :: "'a TState list"

record StepEstimator =
  estimator_state :: nat
  estimator_prop :: string

definition createStepEstimator :: "'a World \<Rightarrow> nat \<Rightarrow> string \<Rightarrow> 'a World \<times> StepEstimator" where
  "createStepEstimator world state prop =
     (world\<lparr>heap := heap world @ [cloneDeep (heap world ! state)]\<rparr>,
      \<lparr>estimator_state = length (heap world), estimator_prop = prop\<rparr>)"

definition callStepEstimator :: "StepEstimator \<Rightarrow> 'a PromptResult \<Rightarrow> 'a World \<Rightarrow> int \<times> 'a World" where
  "callStepEstimator est response world =
     (case stepEstimator (wizard world) (estimator_prop est) response
             (heap world ! estimator_state est) of
        (n, state') \<Rightarrow> (n, world\<lparr>heap := (heap world)[estimator_state est := state']\<rparr>))"

text \<open>Several calls of the same estimator, one after the other; the estimates are dropped.\<close>

fun callStepEstimator_each :: "StepEstimator \<Rightarrow> 'a PromptResult list \<Rightarrow> 'a World \<Rightarrow> 'a World" where
  "callStepEstimator_each est [] world = world"
| "callStepEstimator_each est (response # responses) world =
     callStepEstimator_each est responses (snd (callStepEstimator est response world))"

subsection \<open>Prompting\<close>

text \<open>
  \<^verbatim>\<open>StateWithCache\<close> is the state with two more properties, \<^verbatim>\<open>stepCache\<close> and
  \<^verbatim>\<open>estimator\<close>. The estimator is handed to the prompter as a function from a
  response to an estimate: a fresh copy of the state, and the closure above on it.
\<close>

record 'a StateWithCache =
  state_properties :: "'a TState"
  stepCache :: "'a StepCache"
  estimator :: "'a PromptResult \<Rightarrow> int"

type_synonym 'a PrompterProvider = "'a StateWithCache \<Rightarrow> 'a Prompter"

definition estimatorOf :: "'a Wizard \<Rightarrow> 'a TState \<Rightarrow> string \<Rightarrow> 'a PromptResult \<Rightarrow> int" where
  "estimatorOf w state prop = (\<lambda>response. fst (stepEstimator w prop response (cloneDeep state)))"

text \<open>\<^verbatim>\<open>state.stepCache.stepOffset ?? this._stepOffset\<close>\<close>

definition restoredOffset :: "'a Wizard \<Rightarrow> 'a StepCache \<Rightarrow> int \<times> int" where
  "restoredOffset w c = (case stepOffset c of Some offset \<Rightarrow> offset | None \<Rightarrow> wizard_stepOffset w)"

text \<open>
  \<^verbatim>\<open>promptUser\<close> (lines 223-261) up to its \<^verbatim>\<open>await\<close>: the provider builds the prompter, the offset is
  restored and saved, the prompter is configured and its recent item is seeded.
\<close>

definition promptUser_setup ::
  "'a Wizard \<Rightarrow> 'a StateWithCache \<Rightarrow> 'a PrompterProvider \<Rightarrow> 'a option
     \<Rightarrow> 'a Wizard \<times> 'a StateWithCache \<times> 'a Prompter"
where
  "promptUser_setup w state provider impliedResponse =
     (let prompter = provider state;
          w1 = w\<lparr>wizard_stepOffset := restoredOffset w (stepCache state)\<rparr>;
          state1 = state\<lparr>stepCache := (stepCache state)\<lparr>stepOffset := Some (wizard_stepOffset w1)\<rparr>\<rparr>;
          prompter1 = configure prompter
            \<lparr>cache = stepCache state1, stepEstimator = estimator state1,
             steps = (currentStep w1, totalSteps w1)\<rparr>;
          prompter2 =
            (if picked (stepCache state1) \<noteq> None
             then prompter1\<lparr>recentItem := picked (stepCache state1)\<rparr>
             else if impliedResponse \<noteq> None
             then prompter1\<lparr>recentItem := impliedResponse\<rparr>
             else prompter1)
      in (w1, state1, prompter2))"

text \<open>
  \<^verbatim>\<open>promptUser\<close> from the moment the prompt has settled with \<open>answer\<close> (lines
  246-260).
\<close>

definition promptUser_settle ::
  "'a Wizard \<Rightarrow> 'a StateWithCache \<Rightarrow> 'a PromptResult \<Rightarrow> 'a Prompter
     \<Rightarrow> 'a PromptResult \<times> 'a Wizard \<times> 'a StateWithCache \<times> 'a Prompter"
where
  "promptUser_settle w state answer prompter =
     (case
        (if isValidResponse answer
         then (state\<lparr>stepCache := (stepCache state)\<lparr>picked := recentItem prompter\<rparr>\<rparr>, prompter)
         else (state\<lparr>stepCache := (stepCache state)\<lparr>stepOffset := None\<rparr>\<rparr>,
               if currentStep w = 1 \<and> shouldDispose answer then dispose prompter else prompter))
      of (state1, prompter1) \<Rightarrow>
        (answer,
         w\<lparr>wizard_stepOffset :=
             (fst (wizard_stepOffset w) + prompter_totalSteps prompter1 - 1,
              snd (wizard_stepOffset w) + prompter_totalSteps prompter1 - 1)\<rparr>,
         state1, prompter1))"

definition promptUser ::
  "'a Wizard \<Rightarrow> 'a StateWithCache \<Rightarrow> 'a PrompterProvider \<Rightarrow> 'a option \<Rightarrow> 'a PromptControl
     \<Rightarrow> 'a PromptResult \<times> 'a Wizard \<times> 'a StateWithCache \<times> 'a Prompter"
where
  "promptUser w state provider impliedResponse promptControl =
     (case promptUser_setup w state provider impliedResponse of
        (w1, state1, prompter1) \<Rightarrow>
          (case promptControl prompter1 (stepCache state1) of
             (answer, prompter2, cache2) \<Rightarrow>
               promptUser_settle w1 (state1\<lparr>stepCache := cache2\<rparr>) answer prompter2))"

subsection \<open>Bound steps\<close>

text \<open>
  The closure returned by \<^verbatim>\<open>createBoundStep(prop, provider)\<close> (lines 179-199). It captures the cache
  object of the property; \<open>stepCache'\<close> is the content of that object when the step
  runs, and the content it is left with is returned with the wizard and the prompter.
  First the call of \<^verbatim>\<open>promptUser\<close> with its arguments.
\<close>

definition createBoundStep_prompt ::
  "string \<Rightarrow> 'a PrompterProvider \<Rightarrow> 'a Wizard \<Rightarrow> 'a StepCache \<Rightarrow> 'a PromptControl \<Rightarrow> 'a TState
     \<Rightarrow> 'a PromptResult \<times> 'a Wizard \<times> 'a StateWithCache \<times> 'a Prompter"
where
  "createBoundStep_prompt prop provider w stepCache' promptControl state =
     (let stateWithCache =
            \<lparr>state_properties = applyDefaults (wizard_form w) state (getAssigned w),
             stepCache = stepCache', estimator = estimatorOf w state prop\<rparr>;
          impliedResponse =
            lodash_get (case implicitState w of None \<Rightarrow> Map.empty | Some s \<Rightarrow> s) prop
      in promptUser w stateWithCache provider impliedResponse promptControl)"

definition createBoundStep_step ::
  "string \<Rightarrow> 'a PrompterProvider \<Rightarrow> 'a Wizard \<Rightarrow> 'a StepCache \<Rightarrow> 'a PromptControl \<Rightarrow> 'a TState
     \<Rightarrow> 'a StepResult \<times> 'a Wizard \<times> 'a StepCache \<times> 'a Prompter"
where
  "createBoundStep_step prop provider w stepCache' promptControl state =
     (case createBoundStep_prompt prop provider w stepCache' promptControl state of
        (response, w1, stateWithCache, prompter) \<Rightarrow>
          if response = Control WIZARD_EXIT \<and> exitStep w1 \<noteq> None
          then (\<lparr>nextState = state, nextSteps = Some [the (exitStep w1)], controlSignal = None\<rparr>,
                w1, stepCache stateWithCache, prompter)
          else
            let state1 =
                  (if isValidResponse response
                   then lodash_set state prop (responseValue response) else state)
            in (\<lparr>nextState = state1,
                 nextSteps = Some (resolveNextSteps w1 state1 None),
                 controlSignal = (case response of Control c \<Rightarrow> Some (type c) | _ \<Rightarrow> None)\<rparr>,
                w1, stepCache stateWithCache, prompter))"

text \<open>
  \<^verbatim>\<open>createBoundStep\<close> itself: the cache of the property is created when it is
  missing, and the closure is returned.
\<close>

definition createBoundStep ::
  "'a Wizard \<Rightarrow> string \<Rightarrow> 'a PrompterProvider
     \<Rightarrow> 'a Wizard \<times>
        ('a Wizard \<Rightarrow> 'a StepCache \<Rightarrow> 'a PromptControl \<Rightarrow> 'a TState
           \<Rightarrow> 'a StepResult \<times> 'a Wizard \<times> 'a StepCache \<times> 'a Prompter)"
where
  "createBoundStep w prop provider =
     (w\<lparr>caches := (caches w)(prop \<mapsto> (case caches w prop of None \<Rightarrow> emptyCache | Some c \<Rightarrow> c))\<rparr>,
      createBoundStep_step prop provider)"

subsection \<open>Runs\<close>

text \<open>
  What changes the two getters between two observations: the controller moves its
  counters, or a step calls \<^verbatim>\<open>promptUser\<close>. A run is a list of such events, and
  the wizard can be observed after any of them.
\<close>

datatype 'a WizardEvent =
    ControllerChange StateMachineController
  | PromptUser "'a StateWithCache" "'a PrompterProvider" "'a option" "'a PromptControl"

fun observeAfter :: "'a Wizard \<Rightarrow> 'a WizardEvent list \<Rightarrow> 'a Wizard" where
  "observeAfter w [] = w"
| "observeAfter w (ControllerChange ctl # events) =
     observeAfter (w\<lparr>stateController := ctl\<rparr>) events"
| "observeAfter w (PromptUser state provider impliedResponse promptControl # events) =
     observeAfter (fst (snd (promptUser w state provider impliedResponse promptControl))) events"

text \<open>The sum of \<^verbatim>\<open>prompter.totalSteps - 1\<close> over the prompts of a run.\<close>

fun stepsAdvanced :: "'a Wizard \<Rightarrow> 'a WizardEvent list \<Rightarrow> int" where
  "stepsAdvanced w [] = 0"
| "stepsAdvanced w (ControllerChange ctl # events) =
     stepsAdvanced (w\<lparr>stateController := ctl\<rparr>) events"
| "stepsAdvanced w (PromptUser state provider impliedResponse promptControl # events) =
     (case promptUser w state provider impliedResponse promptControl of
        (answer, w1, state1, prompter) \<Rightarrow>
          (prompter_totalSteps prompter - 1) + stepsAdvanced w1 events)"

text \<open>
  No prompt of the run finds in its cache a saved offset other than the one the wizard
  holds at that moment.
\<close>

fun restoresStoredOffset :: "'a Wizard \<Rightarrow> 'a WizardEvent list \<Rightarrow> bool" where
  "restoresStoredOffset w [] = True"
| "restoresStoredOffset w (ControllerChange ctl # events) =
     restoresStoredOffset (w\<lparr>stateController := ctl\<rparr>) events"
| "restoresStoredOffset w (PromptUser state provider impliedResponse promptControl # events) =
     ((stepOffset (stepCache state) = None
         \<or> stepOffset (stepCache state) = Some (wizard_stepOffset w))
      \<and> restoresStoredOffset
            (fst (snd (promptUser w state provider impliedResponse promptControl))) events)"

text \<open>Every prompter of the run has \<^verbatim>\<open>totalSteps\<close> 1 when its prompt settles.\<close>

fun oneStepPrompters :: "'a Wizard \<Rightarrow> 'a WizardEvent list \<Rightarrow> bool" where
  "oneStepPrompters w [] = True"
| "oneStepPrompters w (ControllerChange ctl # events) =
     oneStepPrompters (w\<lparr>stateController := ctl\<rparr>) events"
| "oneStepPrompters w (PromptUser state provider impliedResponse promptControl # events) =
     (case promptUser w state provider impliedResponse promptControl of
        (answer, w1, state1, prompter) \<Rightarrow>
          prompter_totalSteps prompter = 1 \<and> oneStepPrompters w1 events)"

section \<open>Step resolution as the specification words it\<close>

text \<open>
  The bound properties are visited in their binding order. A property whose step is
  already scheduled is passed over. For any other property the visibility predicate is
  asked with the state and the running assigned set; when it holds, the step joins the
  branch and the property joins the running set for the properties that follow.
\<close>

fun resolveNextSteps_spec ::
  "(string \<Rightarrow> 'a TState \<Rightarrow> string set \<Rightarrow> bool) \<Rightarrow> (Step \<Rightarrow> bool) \<Rightarrow> 'a TState
     \<Rightarrow> (string \<times> Step) list \<Rightarrow> string set \<Rightarrow> Step list"
where
  "resolveNextSteps_spec visible scheduled state [] running' = []"
| "resolveNextSteps_spec visible scheduled state ((p, step) # rest) running' =
     (if scheduled step then resolveNextSteps_spec visible scheduled state rest running'
      else if visible p state running'
      then step # resolveNextSteps_spec visible scheduled state rest (insert p running')
      else resolveNextSteps_spec visible scheduled state rest running')"

section \<open>A small wizard\<close>

text \<open>
  Three properties bound in the order \<open>name\<close>, \<open>advanced\<close>, \<open>confirm\<close>:
  \<open>name\<close> is always visible, \<open>advanced\<close> is visible when \<open>name\<close> holds \<open>x\<close>, and
  \<open>confirm\<close> is visible once \<open>name\<close> is assigned. The controller is at its first
  step and contains the steps listed in \<open>scheduled\<close>.
\<close>

definition exampleForm :: "string WizardForm" where
  "exampleForm =
     \<lparr>canShowProperty = (\<lambda>p state assigned.
         p = ''name'' \<or> (p = ''advanced'' \<and> state ''name'' = Some (Some ''x''))
           \<or> (p = ''confirm'' \<and> ''name'' \<in> assigned)),
      applyDefaults = (\<lambda>state assigned. state)\<rparr>"

definition exampleController :: "Step list \<Rightarrow> StateMachineController" where
  "exampleController scheduled =
     \<lparr>containsStep = (\<lambda>step. List.member scheduled step),
      controller_currentStep = 1,
      controller_totalSteps = 2\<rparr>"

definition exampleWizard :: "Step list \<Rightarrow> Step option \<Rightarrow> string Wizard" where
  "exampleWizard scheduled exit' =
     \<lparr>boundSteps = [(''name'', BoundStep ''name''), (''advanced'', BoundStep ''advanced''),
                    (''confirm'', BoundStep ''confirm'')],
      wizard_form = exampleForm,
      caches = Map.empty,
      stateController = exampleController scheduled,
      wizard_stepOffset = (0, 0),
      exitStep = exit',
      running = False,
      wizard_estimator = None,
      implicitState = None\<rparr>"

text \<open>A prompter that takes \<open>n\<close> steps, and a prompt that settles with a given response.\<close>

definition examplePrompter :: "int \<Rightarrow> string Prompter" where
  "examplePrompter n = \<lparr>recentItem = None, prompter_totalSteps = n, configured = None, disposed = 0\<rparr>"

definition exampleProvider :: "int \<Rightarrow> string PrompterProvider" where
  "exampleProvider n state = examplePrompter n"

definition respondWith :: "'a PromptResult \<Rightarrow> 'a PromptControl" where
  "respondWith response prompter cache' =
     (response,
      prompter\<lparr>recentItem := (case response of Answer a \<Rightarrow> Some a | _ \<Rightarrow> recentItem prompter)\<rparr>,
      cache')"

definition exampleStateWithCache :: "string StateWithCache" where
  "exampleStateWithCache =
     \<lparr>state_properties = Map.empty, stepCache = emptyCache, estimator = (\<lambda>response. 0)\<rparr>"

text \<open>
  A world whose one state object holds \<open>y\<close> for \<open>name\<close>, with the step of
  \<open>name\<close> in the controller.
\<close>

definition exampleWorld :: "string World" where
  "exampleWorld =
     \<lparr>wizard = exampleWizard [BoundStep ''name''] None, heap = [[''name'' \<mapsto> Some ''y'']]\<rparr>"

text \<open>
  Two runs of two prompts with a move of the controller in between: the first has a
  prompter of three steps, the second only prompters of one step and a cache that holds
  the offset \<open>[4, 7]\<close>.
\<close>

definition exampleRun :: "string WizardEvent list" where
  "exampleRun =
     [PromptUser exampleStateWithCache (exampleProvider 3) None (respondWith (Answer ''x'')),
      ControllerChange (exampleController [BoundStep ''name'']),
      PromptUser exampleStateWithCache (exampleProvider 1) None (respondWith (Answer ''y''))]"

definition exampleOneStepRun :: "string WizardEvent list" where
  "exampleOneStepRun =
     [PromptUser exampleStateWithCache (exampleProvider 1) None (respondWith (Answer ''x'')),
      ControllerChange (exampleController [BoundStep ''name'']),
      PromptUser (exampleStateWithCache\<lparr>stepCache := \<lparr>picked = Some ''x'', stepOffset = Some (4, 7)\<rparr>\<rparr>)
        (exampleProvider 1) None (respondWith (Control WIZARD_BACK))]"

section \<open>The estimator's copy of the state\<close>

text \<open>
  What holds of the world at any moment after the estimator was created from \<open>world\<close>
  with the content \<open>copy\<close>: the wizard and the objects that existed are as they were,
  and the estimator's object holds the copy, with or without its property reset to
  \<^verbatim>\<open>undefined\<close>.
\<close>

definition estimatorInvariant :: "'a World \<Rightarrow> StepEstimator \<Rightarrow> 'a TState \<Rightarrow> 'a World \<Rightarrow> bool" where
  "estimatorInvariant world est copy world' =
     (wizard world' = wizard world
      \<and> length (heap world') = Suc (length (heap world))
      \<and> take (length (heap world)) (heap world') = heap world
      \<and> (heap world' ! estimator_state est = copy
          \<or> heap world' ! estimator_state est = copy(estimator_prop est \<mapsto> None)))"

section \<open>Step resolution\<close>

lemma resolveNextSteps_forEach_spec:
  "resolveNextSteps_forEach w state bound acc assigned =
     acc @ resolveNextSteps_spec (canShowProperty (wizard_form w))
             (containsStep (stateController w)) state bound assigned"
  by (induction bound arbitrary: acc assigned) auto

text \<open>
  C1. For every state and every initial assigned set (given, or defaulted to
  \<open>getAssigned\<close>), \<open>resolveNextSteps\<close> returns what the specification describes: the
  bound properties in binding order, those not yet scheduled tested against the running
  copy of the assigned set, each visible one appended and added to that copy. The
  resolution is sensitive to the order: in the small wizard \<open>confirm\<close> is not visible
  with the initial empty set, and is resolved because \<open>name\<close> was added before it.
\<close>

theorem resolveNextSteps_running_copy:
  "resolveNextSteps w state assigned =
     resolveNextSteps_spec (canShowProperty (wizard_form w)) (containsStep (stateController w))
       state (boundSteps w) (case assigned of None \<Rightarrow> getAssigned w | Some a \<Rightarrow> a)
   \<and> resolveNextSteps (exampleWizard [] None) Map.empty (Some {})
       = [BoundStep ''name'', BoundStep ''confirm'']
   \<and> \<not> canShowProperty (wizard_form (exampleWizard [] None)) ''confirm'' Map.empty {}"
  by (simp add: resolveNextSteps_def resolveNextSteps_forEach_spec exampleWizard_def
      exampleForm_def exampleController_def)

theorem resolveNextSteps_running_copy_witness:
  "resolveNextSteps (exampleWizard [BoundStep ''name''] None) [''name'' \<mapsto> Some ''x''] None
     = [BoundStep ''advanced'', BoundStep ''confirm'']"
  using resolveNextSteps_running_copy
    [of "exampleWizard [BoundStep ''name''] None" "[''name'' \<mapsto> Some ''x'']" None]
  by (simp add: getAssigned_def exampleWizard_def exampleForm_def exampleController_def)

section \<open>The cache table\<close>

text \<open>
  C9. While \<open>running\<close> is true, reading and writing \<open>cache\<close> both throw. Otherwise
  reading returns the table \<open>caches\<close>, writing replaces it, and a read after the write
  returns the table that was written.
\<close>

theorem cache_throws_while_running:
  "(running w \<longrightarrow>
      get_cache w = Inl (Error ''Cannot retrieve cache while wizard is running.'')
      \<and> set_cache w c = Inl (Error ''Cannot set cache while wizard is running.''))
   \<and> (\<not> running w \<longrightarrow>
      get_cache w = Inr (caches w)
      \<and> set_cache w c = Inr (w\<lparr>caches := c\<rparr>)
      \<and> get_cache (w\<lparr>caches := c\<rparr>) = Inr c)"
  by (simp add: get_cache_def set_cache_def)

theorem cache_throws_while_running_witness:
  "get_cache ((exampleWizard [] None)\<lparr>running := True\<rparr>)
     = Inl (Error ''Cannot retrieve cache while wizard is running.'')
   \<and> set_cache ((exampleWizard [] None)\<lparr>running := True\<rparr>) [''name'' \<mapsto> emptyCache]
     = Inl (Error ''Cannot set cache while wizard is running.'')
   \<and> get_cache (exampleWizard [] None) = Inr Map.empty
   \<and> get_cache ((exampleWizard [] None)\<lparr>caches := [''name'' \<mapsto> emptyCache]\<rparr>)
     = Inr [''name'' \<mapsto> emptyCache]"
  using cache_throws_while_running
      [of "(exampleWizard [] None)\<lparr>running := True\<rparr>" "[''name'' \<mapsto> emptyCache]"]
    cache_throws_while_running [of "exampleWizard [] None" "[''name'' \<mapsto> emptyCache]"]
  by (simp add: exampleWizard_def)

section \<open>Bound steps\<close>

text \<open>
  \<open>promptUser\<close> writes one field of the wizard, the step offset, and step resolution
  does not read it.
\<close>

lemma promptUser_settle_frame:
  "promptUser_settle w s a p = (r, w1, s1, p1) \<Longrightarrow>
     r = a \<and> (\<exists>offset. w1 = w\<lparr>wizard_stepOffset := offset\<rparr>)"
  by (auto simp: promptUser_settle_def split: if_splits)

lemma promptUser_setup_frame:
  "promptUser_setup w s provider i = (w1, s1, p1) \<Longrightarrow>
     w1 = w\<lparr>wizard_stepOffset := restoredOffset w (stepCache s)\<rparr>"
  by (simp add: promptUser_setup_def Let_def)

lemma promptUser_frame:
  assumes "promptUser w s provider i pc = (r, w1, s1, p1)"
  shows "\<exists>offset. w1 = w\<lparr>wizard_stepOffset := offset\<rparr>"
proof -
  obtain w0 s0 p0 where pre: "promptUser_setup w s provider i = (w0, s0, p0)"
    by (metis prod_cases3)
  obtain a p2 c2 where prompt: "pc p0 (stepCache s0) = (a, p2, c2)"
    by (metis prod_cases3)
  from assms pre prompt
  have "promptUser_settle w0 (s0\<lparr>stepCache := c2\<rparr>) a p2 = (r, w1, s1, p1)"
    by (simp add: promptUser_def)
  from promptUser_settle_frame [OF this] obtain offset
    where "w1 = w0\<lparr>wizard_stepOffset := offset\<rparr>" by blast
  with promptUser_setup_frame [OF pre] have "w1 = w\<lparr>wizard_stepOffset := offset\<rparr>" by simp
  then show ?thesis ..
qed

lemma getAssigned_offset [simp]:
  "getAssigned (w\<lparr>wizard_stepOffset := offset\<rparr>) = getAssigned w"
  by (simp add: getAssigned_def)

lemma resolveNextSteps_offset [simp]:
  "resolveNextSteps (w\<lparr>wizard_stepOffset := offset\<rparr>) state assigned
     = resolveNextSteps w state assigned"
  by (cases assigned) (simp_all add: resolveNextSteps_def resolveNextSteps_forEach_spec)

lemma createBoundStep_prompt_frame:
  assumes "createBoundStep_prompt prop provider w c pc state = (r, w1, s1, p1)"
  shows "\<exists>offset. w1 = w\<lparr>wizard_stepOffset := offset\<rparr>"
  using assms unfolding createBoundStep_prompt_def Let_def by (rule promptUser_frame)

lemma createBoundStep_step_result:
  assumes "fst (createBoundStep_prompt prop provider w c pc state) = response"
  shows "fst (createBoundStep_step prop provider w c pc state) =
     (if response = Control WIZARD_EXIT \<and> exitStep w \<noteq> None
      then \<lparr>nextState = state, nextSteps = Some [the (exitStep w)], controlSignal = None\<rparr>
      else \<lparr>nextState = (if isValidResponse response
                           then lodash_set state prop (responseValue response) else state),
            nextSteps = Some (resolveNextSteps w
               (if isValidResponse response
                then lodash_set state prop (responseValue response) else state) None),
            controlSignal = (case response of Control c \<Rightarrow> Some (type c) | _ \<Rightarrow> None)\<rparr>)"
proof -
  obtain r w1 s1 p1 where run: "createBoundStep_prompt prop provider w c pc state = (r, w1, s1, p1)"
    by (metis prod_cases4)
  from createBoundStep_prompt_frame [OF run] obtain offset
    where w1: "w1 = w\<lparr>wizard_stepOffset := offset\<rparr>" ..
  from assms run have r: "r = response" by simp
  show ?thesis
    by (auto simp: createBoundStep_step_def run w1 r Let_def)
qed

text \<open>The definitions that evaluate a run of the small wizard.\<close>

lemmas example_defs =
  createBoundStep_prompt_def promptUser_def promptUser_setup_def promptUser_settle_def
  exampleWizard_def exampleProvider_def examplePrompter_def respondWith_def restoredOffset_def
  emptyCache_def configure_def dispose_def currentStep_def totalSteps_def isValidResponse_def
  shouldDispose_def exampleController_def exampleForm_def Let_def lodash_get_def lodash_set_def
  getAssigned_def

text \<open>
  C2, with the exit confirmation set apart. For the bound step of a property: when the
  prompter's response is a valid answer, \<open>nextState\<close> is the input state with that
  property set to the answer; when the response is a control signal, other than
  \<open>WIZARD_EXIT\<close> while an exit step is configured, \<open>nextState\<close> is the input state
  and \<open>controlSignal\<close> is the tag of the signal. In both cases \<open>nextSteps\<close> is the
  resolution against the state returned.
\<close>

theorem createBoundStep_answer_or_signal:
  "(fst (createBoundStep_prompt property provider w c pc state) = Answer a
     \<longrightarrow> nextState (fst (createBoundStep_step property provider w c pc state)) = state(property \<mapsto> Some a)
       \<and> nextSteps (fst (createBoundStep_step property provider w c pc state))
           = Some (resolveNextSteps w (state(property \<mapsto> Some a)) None))
   \<and> (fst (createBoundStep_prompt property provider w c pc state) = Control signal
       \<and> \<not> (signal = WIZARD_EXIT \<and> exitStep w \<noteq> None)
     \<longrightarrow> nextState (fst (createBoundStep_step property provider w c pc state)) = state
       \<and> controlSignal (fst (createBoundStep_step property provider w c pc state)) = Some (type signal)
       \<and> nextSteps (fst (createBoundStep_step property provider w c pc state))
           = Some (resolveNextSteps w state None))"
  by (auto simp: createBoundStep_step_result isValidResponse_def lodash_set_def)

theorem createBoundStep_answer_or_signal_witness:
  "fst (createBoundStep_prompt ''name'' (exampleProvider 1)
          (exampleWizard [BoundStep ''name''] (Some ExitStep)) emptyCache
          (respondWith (Answer ''x'')) Map.empty) = Answer ''x''
   \<and> nextState (fst (createBoundStep_step ''name'' (exampleProvider 1)
          (exampleWizard [BoundStep ''name''] (Some ExitStep)) emptyCache
          (respondWith (Answer ''x'')) Map.empty)) = [''name'' \<mapsto> Some ''x'']
   \<and> nextSteps (fst (createBoundStep_step ''name'' (exampleProvider 1)
          (exampleWizard [BoundStep ''name''] (Some ExitStep)) emptyCache
          (respondWith (Answer ''x'')) Map.empty))
       = Some [BoundStep ''advanced'', BoundStep ''confirm'']
   \<and> fst (createBoundStep_prompt ''name'' (exampleProvider 1)
          (exampleWizard [BoundStep ''name''] (Some ExitStep)) emptyCache
          (respondWith (Control WIZARD_BACK)) Map.empty) = Control WIZARD_BACK
   \<and> nextState (fst (createBoundStep_step ''name'' (exampleProvider 1)
          (exampleWizard [BoundStep ''name''] (Some ExitStep)) emptyCache
          (respondWith (Control WIZARD_BACK)) Map.empty)) = Map.empty
   \<and> controlSignal (fst (createBoundStep_step ''name'' (exampleProvider 1)
          (exampleWizard [BoundStep ''name''] (Some ExitStep)) emptyCache
          (respondWith (Control WIZARD_BACK)) Map.empty)) = Some Back
   \<and> nextSteps (fst (createBoundStep_step ''name'' (exampleProvider 1)
          (exampleWizard [BoundStep ''name''] (Some ExitStep)) emptyCache
          (respondWith (Control WIZARD_BACK)) Map.empty)) = Some [BoundStep ''confirm'']"
proof -
  have h1: "fst (createBoundStep_prompt ''name'' (exampleProvider 1)
          (exampleWizard [BoundStep ''name''] (Some ExitStep)) emptyCache
          (respondWith (Answer ''x'')) Map.empty) = Answer ''x''"
    by (simp add: example_defs)
  have h2: "fst (createBoundStep_prompt ''name'' (exampleProvider 1)
          (exampleWizard [BoundStep ''name''] (Some ExitStep)) emptyCache
          (respondWith (Control WIZARD_BACK)) Map.empty) = Control WIZARD_BACK"
    by (simp add: example_defs)
  have r1: "resolveNextSteps (exampleWizard [BoundStep ''name''] (Some ExitStep))
              [''name'' \<mapsto> Some ''x''] None = [BoundStep ''advanced'', BoundStep ''confirm'']"
    by (simp add: resolveNextSteps_def exampleWizard_def exampleController_def exampleForm_def
        getAssigned_def)
  have r2: "resolveNextSteps (exampleWizard [BoundStep ''name''] (Some ExitStep)) Map.empty None
             = [BoundStep ''confirm'']"
    by (simp add: resolveNextSteps_def exampleWizard_def exampleController_def exampleForm_def
        getAssigned_def)
  from createBoundStep_answer_or_signal
      [where property = "''name''" and provider = "exampleProvider 1"
         and w = "exampleWizard [BoundStep ''name''] (Some ExitStep)" and c = emptyCache
         and pc = "respondWith (Answer ''x'')" and state = Map.empty and a = "''x''"
         and signal = WIZARD_BACK]
    createBoundStep_answer_or_signal
      [where property = "''name''" and provider = "exampleProvider 1"
         and w = "exampleWizard [BoundStep ''name''] (Some ExitStep)" and c = emptyCache
         and pc = "respondWith (Control WIZARD_BACK)" and state = Map.empty and a = "''x''"
         and signal = WIZARD_BACK]
    h1 h2 r1 r2
  show ?thesis by simp
qed

text \<open>
  Without that exception the statement fails: the response is the control signal
  \<open>WIZARD_EXIT\<close>, an exit step is configured, and the step surfaces no control signal
  and does not resolve the next steps.
\<close>

theorem createBoundStep_signal_counterexample:
  "fst (createBoundStep_prompt ''name'' (exampleProvider 1)
          (exampleWizard [BoundStep ''name''] (Some ExitStep)) emptyCache
          (respondWith (Control WIZARD_EXIT)) Map.empty) = Control WIZARD_EXIT
   \<and> controlSignal (fst (createBoundStep_step ''name'' (exampleProvider 1)
          (exampleWizard [BoundStep ''name''] (Some ExitStep)) emptyCache
          (respondWith (Control WIZARD_EXIT)) Map.empty)) \<noteq> Some (type WIZARD_EXIT)
   \<and> nextSteps (fst (createBoundStep_step ''name'' (exampleProvider 1)
          (exampleWizard [BoundStep ''name''] (Some ExitStep)) emptyCache
          (respondWith (Control WIZARD_EXIT)) Map.empty))
       \<noteq> Some (resolveNextSteps (exampleWizard [BoundStep ''name''] (Some ExitStep)) Map.empty None)"
  by (simp add: createBoundStep_step_def resolveNextSteps_def example_defs)

text \<open>
  C4. When the response is \<open>WIZARD_EXIT\<close> and an exit step is configured, the bound
  step returns the state unchanged, the exit step as the only next step, and no control
  signal. \<open>WIZARD_FORCE_EXIT\<close> has the same tag \<open>Exit\<close> and is another object: the
  step then takes the normal path and surfaces \<open>Exit\<close>.
\<close>

theorem createBoundStep_exit_confirmation:
  "(fst (createBoundStep_prompt property provider w c pc state) = Control WIZARD_EXIT
      \<and> exitStep w = Some exit'
     \<longrightarrow> fst (createBoundStep_step property provider w c pc state) =
           \<lparr>nextState = state, nextSteps = Some [exit'], controlSignal = None\<rparr>)
   \<and> (fst (createBoundStep_prompt property provider w c pc state) = Control WIZARD_FORCE_EXIT
     \<longrightarrow> fst (createBoundStep_step property provider w c pc state) =
           \<lparr>nextState = state, nextSteps = Some (resolveNextSteps w state None),
            controlSignal = Some Exit\<rparr>)
   \<and> type WIZARD_FORCE_EXIT = type WIZARD_EXIT \<and> WIZARD_FORCE_EXIT \<noteq> WIZARD_EXIT"
  by (auto simp: createBoundStep_step_result isValidResponse_def)

theorem createBoundStep_exit_confirmation_witness:
  "fst (createBoundStep_prompt ''name'' (exampleProvider 1)
          (exampleWizard [BoundStep ''name''] (Some ExitStep)) emptyCache
          (respondWith (Control WIZARD_EXIT)) Map.empty) = Control WIZARD_EXIT
   \<and> exitStep (exampleWizard [BoundStep ''name''] (Some ExitStep)) = Some ExitStep
   \<and> fst (createBoundStep_step ''name'' (exampleProvider 1)
          (exampleWizard [BoundStep ''name''] (Some ExitStep)) emptyCache
          (respondWith (Control WIZARD_EXIT)) Map.empty)
       = \<lparr>nextState = Map.empty, nextSteps = Some [ExitStep], controlSignal = None\<rparr>
   \<and> fst (createBoundStep_prompt ''name'' (exampleProvider 1)
          (exampleWizard [BoundStep ''name''] (Some ExitStep)) emptyCache
          (respondWith (Control WIZARD_FORCE_EXIT)) Map.empty) = Control WIZARD_FORCE_EXIT
   \<and> fst (createBoundStep_step ''name'' (exampleProvider 1)
          (exampleWizard [BoundStep ''name''] (Some ExitStep)) emptyCache
          (respondWith (Control WIZARD_FORCE_EXIT)) Map.empty)
       = \<lparr>nextState = Map.empty, nextSteps = Some [BoundStep ''confirm''],
          controlSignal = Some Exit\<rparr>"
proof -
  have h1: "fst (createBoundStep_prompt ''name'' (exampleProvider 1)
          (exampleWizard [BoundStep ''name''] (Some ExitStep)) emptyCache
          (respondWith (Control WIZARD_EXIT)) Map.empty) = Control WIZARD_EXIT"
    by (simp add: example_defs)
  have h2: "exitStep (exampleWizard [BoundStep ''name''] (Some ExitStep)) = Some ExitStep"
    by (simp add: exampleWizard_def)
  have h3: "fst (createBoundStep_prompt ''name'' (exampleProvider 1)
          (exampleWizard [BoundStep ''name''] (Some ExitStep)) emptyCache
          (respondWith (Control WIZARD_FORCE_EXIT)) Map.empty) = Control WIZARD_FORCE_EXIT"
    by (simp add: example_defs)
  have r: "resolveNextSteps (exampleWizard [BoundStep ''name''] (Some ExitStep)) Map.empty None
             = [BoundStep ''confirm'']"
    by (simp add: resolveNextSteps_def exampleWizard_def exampleController_def exampleForm_def
        getAssigned_def)
  from createBoundStep_exit_confirmation
      [where property = "''name''" and provider = "exampleProvider 1"
         and w = "exampleWizard [BoundStep ''name''] (Some ExitStep)" and c = emptyCache
         and pc = "respondWith (Control WIZARD_EXIT)" and state = Map.empty
         and exit' = ExitStep]
    createBoundStep_exit_confirmation
      [where property = "''name''" and provider = "exampleProvider 1"
         and w = "exampleWizard [BoundStep ''name''] (Some ExitStep)" and c = emptyCache
         and pc = "respondWith (Control WIZARD_FORCE_EXIT)" and state = Map.empty
         and exit' = ExitStep]
    h1 h2 h3 r
  show ?thesis by simp
qed

text \<open>
  C10. When the prompter resolves to \<^verbatim>\<open>undefined\<close>, the bound step returns the input
  state unchanged, no control signal, and the next steps resolved against that state:
  the result of a step that continues with no answer recorded.
\<close>

theorem createBoundStep_undefined_response:
  assumes "fst (createBoundStep_prompt property provider w c pc state) = Undefined"
  shows "fst (createBoundStep_step property provider w c pc state) =
           \<lparr>nextState = state, nextSteps = Some (resolveNextSteps w state None),
            controlSignal = None\<rparr>"
  using createBoundStep_step_result [OF assms] by (simp add: isValidResponse_def)

theorem createBoundStep_undefined_response_witness:
  "fst (createBoundStep_prompt ''name'' (exampleProvider 1)
          (exampleWizard [BoundStep ''name''] (Some ExitStep)) emptyCache
          (respondWith Undefined) Map.empty) = Undefined
   \<and> fst (createBoundStep_step ''name'' (exampleProvider 1)
          (exampleWizard [BoundStep ''name''] (Some ExitStep)) emptyCache
          (respondWith Undefined) Map.empty)
       = \<lparr>nextState = Map.empty, nextSteps = Some [BoundStep ''confirm''], controlSignal = None\<rparr>"
proof -
  have h: "fst (createBoundStep_prompt ''name'' (exampleProvider 1)
          (exampleWizard [BoundStep ''name''] (Some ExitStep)) emptyCache
          (respondWith Undefined) Map.empty) = Undefined"
    by (simp add: example_defs)
  from createBoundStep_undefined_response [OF h] h show ?thesis
    by (simp add: resolveNextSteps_def exampleWizard_def exampleController_def exampleForm_def
        getAssigned_def)
qed

section \<open>Prompting\<close>

lemma promptUser_settled:
  assumes pre: "promptUser_setup w state provider impliedResponse = (w1, state1, prompter1)"
    and prompt: "promptControl prompter1 (stepCache state1) = (answer, prompterA, cacheA)"
  shows "promptUser w state provider impliedResponse promptControl
           = promptUser_settle w1 (state1\<lparr>stepCache := cacheA\<rparr>) answer prompterA"
  by (simp add: promptUser_def pre prompt)

lemma promptUser_setup_wizard:
  "fst (promptUser_setup w state provider impliedResponse)
     = w\<lparr>wizard_stepOffset := restoredOffset w (stepCache state)\<rparr>"
  by (simp add: promptUser_setup_def Let_def)

lemma promptUser_setup_state:
  "fst (snd (promptUser_setup w state provider impliedResponse))
     = state\<lparr>stepCache :=
         (stepCache state)\<lparr>stepOffset := Some (restoredOffset w (stepCache state))\<rparr>\<rparr>"
  by (simp add: promptUser_setup_def Let_def)

lemma promptUser_setup_configured:
  "configured (snd (snd (promptUser_setup w state provider impliedResponse))) =
      Some \<lparr>cache = stepCache (fst (snd (promptUser_setup w state provider impliedResponse))),
            stepEstimator = estimator (fst (snd (promptUser_setup w state provider impliedResponse))),
            steps = (currentStep (fst (promptUser_setup w state provider impliedResponse)),
                     totalSteps (fst (promptUser_setup w state provider impliedResponse)))\<rparr>"
  by (simp add: promptUser_setup_def Let_def configure_def)

text \<open>
  C7. \<open>promptUser\<close> first sets the wizard's step offset to the offset saved in the
  cache of the property, or keeps the current one when none is saved, and saves it into
  the cache; the prompter is configured after that, with that cache and with the step
  numbers computed from that offset. When the prompt has settled, each component of
  the wizard's step offset is its value after the restore plus the prompter's
  \<open>totalSteps\<close> minus one.
\<close>

theorem promptUser_offset_restored_then_advanced:
  assumes pre: "promptUser_setup w state provider impliedResponse = (w1, state1, prompter1)"
    and settled: "promptUser w state provider impliedResponse promptControl
                    = (answer, w2, state2, prompter2)"
  shows "wizard_stepOffset w1
           = (case stepOffset (stepCache state) of Some saved \<Rightarrow> saved | None \<Rightarrow> wizard_stepOffset w)
     \<and> stepOffset (stepCache state1) = Some (wizard_stepOffset w1)
     \<and> configured prompter1
           = Some \<lparr>cache = stepCache state1, stepEstimator = estimator state,
                   steps = (fst (wizard_stepOffset w1) + controller_currentStep (stateController w),
                            snd (wizard_stepOffset w1) + controller_totalSteps (stateController w))\<rparr>
     \<and> wizard_stepOffset w2
           = (fst (wizard_stepOffset w1) + (prompter_totalSteps prompter2 - 1),
              snd (wizard_stepOffset w1) + (prompter_totalSteps prompter2 - 1))"
proof -
  obtain a pA cA where prompt: "promptControl prompter1 (stepCache state1) = (a, pA, cA)"
    by (metis prod_cases3)
  from pre promptUser_setup_wizard [of w state provider impliedResponse]
  have w1: "w1 = w\<lparr>wizard_stepOffset := restoredOffset w (stepCache state)\<rparr>"
    by simp
  from pre promptUser_setup_state [of w state provider impliedResponse]
  have s1: "state1 = state\<lparr>stepCache :=
      (stepCache state)\<lparr>stepOffset := Some (restoredOffset w (stepCache state))\<rparr>\<rparr>"
    by simp
  from pre promptUser_setup_configured [of w state provider impliedResponse]
  have conf: "configured prompter1 =
      Some \<lparr>cache = stepCache state1, stepEstimator = estimator state1,
            steps = (currentStep w1, totalSteps w1)\<rparr>"
    by simp
  from settled promptUser_settled [where promptControl = promptControl, OF pre prompt]
  have "promptUser_settle w1 (state1\<lparr>stepCache := cA\<rparr>) a pA = (answer, w2, state2, prompter2)"
    by simp
  then have w2: "wizard_stepOffset w2
           = (fst (wizard_stepOffset w1) + (prompter_totalSteps prompter2 - 1),
              snd (wizard_stepOffset w1) + (prompter_totalSteps prompter2 - 1))"
    by (auto simp: promptUser_settle_def split: if_splits)
  show ?thesis
    using w1 s1 conf w2 by (simp add: restoredOffset_def currentStep_def totalSteps_def)
qed

theorem promptUser_offset_restored_then_advanced_witness:
  "wizard_stepOffset (fst (promptUser_setup (exampleWizard [] None)
       (exampleStateWithCache\<lparr>stepCache := \<lparr>picked = Some ''y'', stepOffset = Some (5, 6)\<rparr>\<rparr>)
       (exampleProvider 3) None)) = (5, 6)
   \<and> stepOffset (stepCache (fst (snd (promptUser_setup (exampleWizard [] None)
       (exampleStateWithCache\<lparr>stepCache := \<lparr>picked = Some ''y'', stepOffset = Some (5, 6)\<rparr>\<rparr>)
       (exampleProvider 3) None)))) = Some (5, 6)
   \<and> wizard_stepOffset (fst (snd (promptUser (exampleWizard [] None)
       (exampleStateWithCache\<lparr>stepCache := \<lparr>picked = Some ''y'', stepOffset = Some (5, 6)\<rparr>\<rparr>)
       (exampleProvider 3) None (respondWith (Answer ''x''))))) = (7, 8)"
proof -
  let ?w = "exampleWizard [] None"
  let ?s = "exampleStateWithCache\<lparr>stepCache := \<lparr>picked = Some ''y'', stepOffset = Some (5, 6)\<rparr>\<rparr>"
  let ?pre = "promptUser_setup ?w ?s (exampleProvider 3) None"
  let ?run = "promptUser ?w ?s (exampleProvider 3) None (respondWith (Answer ''x''))"
  have h1: "?pre = (fst ?pre, fst (snd ?pre), snd (snd ?pre))" by simp
  have h2: "?run = (fst ?run, fst (snd ?run), fst (snd (snd ?run)), snd (snd (snd ?run)))"
    by simp
  have t: "prompter_totalSteps (snd (snd (snd ?run))) = 3"
    by (simp add: example_defs exampleStateWithCache_def)
  have a: "stepOffset (stepCache ?s) = Some (5, 6)" by simp
  note run = promptUser_offset_restored_then_advanced [OF h1 h2]
  from run a have c1: "wizard_stepOffset (fst ?pre) = (5, 6)" by simp
  from run c1 have c2: "stepOffset (stepCache (fst (snd ?pre))) = Some (5, 6)" by simp
  from run c1 t have c3: "wizard_stepOffset (fst (snd ?run)) = (7, 8)" by simp
  from c1 c2 c3 show ?thesis by (intro conjI)
qed

text \<open>
  C8. On a valid answer the \<open>picked\<close> field of the cache becomes the prompter's
  \<open>recentItem\<close>. On any other response the saved \<open>stepOffset\<close> is deleted from the
  cache, and \<open>dispose\<close> is called, once, exactly when the wizard's \<open>currentStep\<close> is
  1 and the response is one of \<open>WIZARD_EXIT\<close>, \<open>WIZARD_BACK\<close>,
  \<open>WIZARD_FORCE_EXIT\<close>; it is not called for \<open>WIZARD_RETRY\<close> or for
  \<^verbatim>\<open>undefined\<close>.
\<close>

theorem promptUser_cache_and_dispose:
  assumes pre: "promptUser_setup w state provider impliedResponse = (w1, state1, prompter1)"
    and prompt: "promptControl prompter1 (stepCache state1) = (answer, prompterA, cacheA)"
    and settled: "promptUser w state provider impliedResponse promptControl
                    = (answer', w2, state2, prompter2)"
  shows "answer' = answer
     \<and> (isValidResponse answer \<longrightarrow> stepCache state2 = cacheA\<lparr>picked := recentItem prompterA\<rparr>)
     \<and> (\<not> isValidResponse answer \<longrightarrow> stepCache state2 = cacheA\<lparr>stepOffset := None\<rparr>)
     \<and> prompter2 =
         (if currentStep w1 = 1
             \<and> (answer = Control WIZARD_EXIT \<or> answer = Control WIZARD_BACK
                  \<or> answer = Control WIZARD_FORCE_EXIT)
          then dispose prompterA else prompterA)
     \<and> disposed prompter2 = disposed prompterA +
         (if currentStep w1 = 1
             \<and> (answer = Control WIZARD_EXIT \<or> answer = Control WIZARD_BACK
                  \<or> answer = Control WIZARD_FORCE_EXIT)
          then 1 else 0)
     \<and> (answer = Control WIZARD_RETRY \<or> answer = Undefined \<longrightarrow> prompter2 = prompterA)"
proof -
  from settled promptUser_settled [where promptControl = promptControl, OF pre prompt]
  have "promptUser_settle w1 (state1\<lparr>stepCache := cacheA\<rparr>) answer prompterA
          = (answer', w2, state2, prompter2)"
    by simp
  then show ?thesis
    by (auto simp: promptUser_settle_def shouldDispose_def isValidResponse_def dispose_def
        split: if_splits)
qed

theorem promptUser_cache_and_dispose_witness:
  "fst (promptUser (exampleWizard [] None) exampleStateWithCache (exampleProvider 1) None
          (respondWith (Control WIZARD_BACK))) = Control WIZARD_BACK
   \<and> stepOffset (stepCache (fst (snd (snd (promptUser (exampleWizard [] None)
          exampleStateWithCache (exampleProvider 1) None (respondWith (Control WIZARD_BACK)))))))
       = None
   \<and> disposed (snd (snd (snd (promptUser (exampleWizard [] None) exampleStateWithCache
          (exampleProvider 1) None (respondWith (Control WIZARD_BACK)))))) = 1
   \<and> picked (stepCache (fst (snd (snd (promptUser (exampleWizard [] None)
          exampleStateWithCache (exampleProvider 1) None (respondWith (Answer ''x'')))))))
       = Some ''x''
   \<and> disposed (snd (snd (snd (promptUser (exampleWizard [] None) exampleStateWithCache
          (exampleProvider 1) None (respondWith (Answer ''x'')))))) = 0"
proof -
  let ?w = "exampleWizard [] None"
  let ?pre = "promptUser_setup ?w exampleStateWithCache (exampleProvider 1) None"
  let ?wentBack = "respondWith (Control WIZARD_BACK) (snd (snd ?pre)) (stepCache (fst (snd ?pre)))"
  let ?runBack = "promptUser ?w exampleStateWithCache (exampleProvider 1) None
                    (respondWith (Control WIZARD_BACK))"
  let ?x = "respondWith (Answer ''x'') (snd (snd ?pre)) (stepCache (fst (snd ?pre)))"
  let ?runX = "promptUser ?w exampleStateWithCache (exampleProvider 1) None
                    (respondWith (Answer ''x''))"
  have h1: "?pre = (fst ?pre, fst (snd ?pre), snd (snd ?pre))" by simp
  have b2: "?wentBack = (Control WIZARD_BACK, snd (snd ?pre), stepCache (fst (snd ?pre)))"
    by (simp add: respondWith_def)
  have b3: "?runBack = (fst ?runBack, fst (snd ?runBack), fst (snd (snd ?runBack)),
                        snd (snd (snd ?runBack)))"
    by simp
  have x2: "?x = (Answer ''x'', (snd (snd ?pre))\<lparr>recentItem := Some ''x''\<rparr>,
                  stepCache (fst (snd ?pre)))"
    by (simp add: respondWith_def)
  have x3: "?runX = (fst ?runX, fst (snd ?runX), fst (snd (snd ?runX)), snd (snd (snd ?runX)))"
    by simp
  have c: "currentStep (fst ?pre) = 1"
    by (simp add: example_defs exampleStateWithCache_def)
  have d: "disposed (snd (snd ?pre)) = 0"
    by (simp add: example_defs exampleStateWithCache_def)
  from promptUser_cache_and_dispose
         [where promptControl = "respondWith (Control WIZARD_BACK)", OF h1 b2 b3]
       promptUser_cache_and_dispose
         [where promptControl = "respondWith (Answer ''x'')", OF h1 x2 x3]
       c d
  show ?thesis
    by (simp add: isValidResponse_def dispose_def)
qed

section \<open>The step estimator\<close>

text \<open>
  C5, for control signals. For every response that is a control signal the estimator returns 0
  and leaves its state as it is, whatever the form and the parent estimator are. For
  the response \<^verbatim>\<open>undefined\<close> it does not return early: the estimate is the number of
  steps resolved with the property set to \<^verbatim>\<open>undefined\<close>, plus the parent's estimate.
\<close>

theorem stepEstimator_control_signal_zero:
  "stepEstimator w property (Control signal) state = (0, state)
   \<and> fst (stepEstimator w property Undefined state)
       = int (length (resolveNextSteps w (state(property \<mapsto> None)) (Some {property})))
         + (case wizard_estimator w of Some parent \<Rightarrow> parent (state(property \<mapsto> None)) | None \<Rightarrow> 0)"
  by (simp add: stepEstimator_def isValidResponse_def lodash_set_def Let_def)

theorem stepEstimator_control_signal_zero_witness:
  "stepEstimator (exampleWizard [BoundStep ''name''] None) ''name'' (Control WIZARD_RETRY) Map.empty
     = (0, Map.empty)"
  using stepEstimator_control_signal_zero
    [where w = "exampleWizard [BoundStep ''name''] None" and property = "''name''"
       and signal = WIZARD_RETRY and state = Map.empty]
  by simp

text \<open>
  \<^verbatim>\<open>undefined\<close> is not a valid response, and its estimate is not 0: in the small
  wizard \<open>confirm\<close> is resolved.
\<close>

theorem stepEstimator_undefined_counterexample:
  "\<not> isValidResponse (Undefined :: string PromptResult)
   \<and> fst (stepEstimator (exampleWizard [BoundStep ''name''] None) ''name'' Undefined Map.empty) \<noteq> 0"
  by (simp add: stepEstimator_def isValidResponse_def lodash_set_def Let_def
      resolveNextSteps_def exampleWizard_def exampleController_def exampleForm_def)

lemma stepEstimator_state:
  "snd (stepEstimator w property response state) = state
   \<or> snd (stepEstimator w property response state) = state(property \<mapsto> None)"
  by (simp add: stepEstimator_def lodash_set_def Let_def)

lemma stepEstimator_restored:
  "stepEstimator w property response (state(property \<mapsto> None))
     = (fst (stepEstimator w property response state),
        state(property \<mapsto> None))"
  by (cases response) (simp_all add: stepEstimator_def lodash_set_def isValidResponse_def Let_def)

lemma stepEstimator_restored_snd:
  "snd (stepEstimator w property response (state(property \<mapsto> None))) = state(property \<mapsto> None)"
  by (simp add: stepEstimator_restored)

lemma estimatorInvariant_call:
  assumes inv: "estimatorInvariant world est copy world'"
    and addr: "estimator_state est = length (heap world)"
  shows "estimatorInvariant world est copy (snd (callStepEstimator est response world'))"
    and "fst (callStepEstimator est response world')
           = fst (stepEstimator (wizard world) (estimator_prop est) response copy)"
proof -
  let ?a = "estimator_state est"
  let ?r = "stepEstimator (wizard world) (estimator_prop est) response (heap world' ! ?a)"
  from inv have wz: "wizard world' = wizard world"
    and len: "length (heap world') = Suc (length (heap world))"
    and old: "take (length (heap world)) (heap world') = heap world"
    and cur: "heap world' ! ?a = copy \<or> heap world' ! ?a = copy(estimator_prop est \<mapsto> None)"
    by (simp_all add: estimatorInvariant_def)
  have call: "callStepEstimator est response world'
                = (fst ?r, world'\<lparr>heap := (heap world')[?a := snd ?r]\<rparr>)"
    by (simp add: callStepEstimator_def wz split: prod.splits)
  from cur have next': "snd ?r = copy \<or> snd ?r = copy(estimator_prop est \<mapsto> None)"
    using stepEstimator_state [of "wizard world" "estimator_prop est" response copy]
    by (auto simp: stepEstimator_restored)
  from cur show "fst (callStepEstimator est response world')
           = fst (stepEstimator (wizard world) (estimator_prop est) response copy)"
    by (auto simp: call stepEstimator_restored)
  from next' show "estimatorInvariant world est copy (snd (callStepEstimator est response world'))"
    by (auto simp: call estimatorInvariant_def wz len old addr)
qed

lemma estimatorInvariant_each:
  assumes "estimatorInvariant world est copy world'"
    and "estimator_state est = length (heap world)"
  shows "estimatorInvariant world est copy (callStepEstimator_each est responses world')"
  using assms
  by (induction responses arbitrary: world') (auto intro: estimatorInvariant_call)

lemma estimatorInvariant_create:
  assumes "createStepEstimator world state property = (world0, est)"
  shows "estimatorInvariant world est (heap world ! state) world0"
    and "estimator_state est = length (heap world)"
    and "estimator_prop est = property"
  using assms by (auto simp: createStepEstimator_def estimatorInvariant_def cloneDeep_def)

text \<open>
  C6. The estimator created for a state object works on a copy of its own: after any
  calls, with any responses, the wizard (its caches among its fields) and every object
  that existed when the estimator was created, the real state among them, are as they
  were. The estimate for a response after any such calls is the estimate of a first
  call with that response, which is a function of the state as it was at creation.
\<close>

theorem stepEstimator_private_copy:
  assumes valid: "state < length (heap world)"
    and created: "createStepEstimator world state property = (world0, est)"
  shows "wizard (callStepEstimator_each est responses world0) = wizard world
     \<and> take (length (heap world)) (heap (callStepEstimator_each est responses world0)) = heap world
     \<and> heap (callStepEstimator_each est responses world0) ! state = heap world ! state
     \<and> estimator_state est \<noteq> state
     \<and> fst (callStepEstimator est response (callStepEstimator_each est responses world0))
         = fst (callStepEstimator est response world0)
     \<and> fst (callStepEstimator est response world0)
         = fst (stepEstimator (wizard world) property response (heap world ! state))"
proof -
  note c = estimatorInvariant_create [OF created]
  have inv: "estimatorInvariant world est (heap world ! state)
               (callStepEstimator_each est responses world0)"
    by (rule estimatorInvariant_each [OF c(1) c(2)])
  then have old: "take (length (heap world)) (heap (callStepEstimator_each est responses world0))
                    = heap world"
    by (simp add: estimatorInvariant_def)
  have "heap (callStepEstimator_each est responses world0) ! state
          = take (length (heap world)) (heap (callStepEstimator_each est responses world0)) ! state"
    using valid by simp
  with old have same: "heap (callStepEstimator_each est responses world0) ! state = heap world ! state"
    by simp
  from estimatorInvariant_call(2) [OF inv c(2)] estimatorInvariant_call(2) [OF c(1) c(2)]
  have calls: "fst (callStepEstimator est response (callStepEstimator_each est responses world0))
         = fst (callStepEstimator est response world0)"
    "fst (callStepEstimator est response world0)
         = fst (stepEstimator (wizard world) property response (heap world ! state))"
    by (simp_all add: c(3))
  from inv old same calls valid c(2) show ?thesis
    by (simp add: estimatorInvariant_def)
qed

theorem stepEstimator_private_copy_witness:
  "0 < length (heap exampleWorld)
   \<and> wizard (callStepEstimator_each (snd (createStepEstimator exampleWorld 0 ''name''))
        [Answer ''x'', Control WIZARD_BACK, Undefined]
        (fst (createStepEstimator exampleWorld 0 ''name''))) = wizard exampleWorld
   \<and> heap (callStepEstimator_each (snd (createStepEstimator exampleWorld 0 ''name''))
        [Answer ''x'', Control WIZARD_BACK, Undefined]
        (fst (createStepEstimator exampleWorld 0 ''name''))) ! 0 = [''name'' \<mapsto> Some ''y'']
   \<and> fst (callStepEstimator (snd (createStepEstimator exampleWorld 0 ''name'')) (Answer ''x'')
        (callStepEstimator_each (snd (createStepEstimator exampleWorld 0 ''name''))
          [Answer ''x'', Control WIZARD_BACK, Undefined]
          (fst (createStepEstimator exampleWorld 0 ''name'')))) = 2"
proof -
  let ?created = "createStepEstimator exampleWorld 0 ''name''"
  have h1: "0 < length (heap exampleWorld)" by (simp add: exampleWorld_def)
  have h2: "?created = (fst ?created, snd ?created)" by simp
  have v: "fst (stepEstimator (wizard exampleWorld) ''name'' (Answer ''x'') (heap exampleWorld ! 0))
             = 2"
    by (simp add: stepEstimator_def isValidResponse_def lodash_set_def Let_def
        resolveNextSteps_def exampleWorld_def exampleWizard_def exampleController_def
        exampleForm_def)
  have s: "heap exampleWorld ! 0 = [''name'' \<mapsto> Some ''y'']" by (simp add: exampleWorld_def)
  from stepEstimator_private_copy
         [OF h1 h2, where responses = "[Answer ''x'', Control WIZARD_BACK, Undefined]"
            and response = "Answer ''x''"]
       h1 v s
  show ?thesis by simp
qed

section \<open>The step offset over a run\<close>

text \<open>
  A prompt leaves the controller as it is and moves the offset, from the restored
  one, by the prompter's \<open>totalSteps\<close> minus one.
\<close>

lemma promptUser_offset:
  assumes "promptUser w state provider impliedResponse promptControl = (answer, w2, state2, prompter2)"
  shows "wizard_stepOffset w2 =
           (fst (restoredOffset w (stepCache state)) + (prompter_totalSteps prompter2 - 1),
            snd (restoredOffset w (stepCache state)) + (prompter_totalSteps prompter2 - 1))
         \<and> stateController w2 = stateController w"
proof -
  let ?pre = "promptUser_setup w state provider impliedResponse"
  obtain a pA cA where prompt: "promptControl (snd (snd ?pre)) (stepCache (fst (snd ?pre))) = (a, pA, cA)"
    by (metis prod_cases3)
  have pre: "?pre = (fst ?pre, fst (snd ?pre), snd (snd ?pre))" by simp
  from assms promptUser_settled [where promptControl = promptControl, OF pre prompt]
  have "promptUser_settle (fst ?pre) ((fst (snd ?pre))\<lparr>stepCache := cA\<rparr>) a pA
          = (answer, w2, state2, prompter2)"
    by simp
  then have "wizard_stepOffset w2 =
           (fst (wizard_stepOffset (fst ?pre)) + (prompter_totalSteps prompter2 - 1),
            snd (wizard_stepOffset (fst ?pre)) + (prompter_totalSteps prompter2 - 1))
         \<and> stateController w2 = stateController (fst ?pre)"
    by (auto simp: promptUser_settle_def split: if_splits)
  then show ?thesis by (simp add: promptUser_setup_wizard)
qed

lemma restoredOffset_stored:
  "stepOffset c = None \<or> stepOffset c = Some (wizard_stepOffset w) \<Longrightarrow>
     restoredOffset w c = wizard_stepOffset w"
  by (auto simp: restoredOffset_def)

lemma observeAfter_offset:
  "restoresStoredOffset w events \<Longrightarrow>
     wizard_stepOffset (observeAfter w events)
       = (fst (wizard_stepOffset w) + stepsAdvanced w events,
          snd (wizard_stepOffset w) + stepsAdvanced w events)"
proof (induction w events rule: observeAfter.induct)
  case (1 w)
  then show ?case by simp
next
  case (2 w ctl events)
  then show ?case by simp
next
  case (3 w state provider impliedResponse promptControl events)
  obtain answer w1 state1 prompter
    where run: "promptUser w state provider impliedResponse promptControl
                  = (answer, w1, state1, prompter)"
    by (metis prod_cases4)
  from "3.prems" have stored: "restoredOffset w (stepCache state) = wizard_stepOffset w"
    and rest: "restoresStoredOffset w1 events"
    by (simp_all add: run restoredOffset_stored)
  from "3.IH" rest run
  have "wizard_stepOffset (observeAfter w1 events)
       = (fst (wizard_stepOffset w1) + stepsAdvanced w1 events,
          snd (wizard_stepOffset w1) + stepsAdvanced w1 events)"
    by simp
  with promptUser_offset [OF run] stored show ?case
    by (simp add: run)
qed

lemma oneStepPrompters_advance:
  "oneStepPrompters w events \<Longrightarrow> stepsAdvanced w events = 0"
  by (induction w events rule: stepsAdvanced.induct) (auto split: prod.splits)

text \<open>
  C3, with the advance of the prompts. The offset \<open>[a, b]\<close> is set, and the wizard is
  observed after any run in which no prompt restores a saved offset other than the
  stored one. Then \<open>currentStep\<close> is \<open>a\<close>, plus the steps the prompters of the run
  took beyond one each, plus the controller's \<open>currentStep\<close>, and \<open>totalSteps\<close> is
  \<open>b\<close>, plus the same advance, plus the controller's \<open>totalSteps\<close>. When every
  prompter takes one step, they are \<open>a\<close> plus the controller's \<open>currentStep\<close> and
  \<open>b\<close> plus the controller's \<open>totalSteps\<close> at every observation.
\<close>

theorem stepOffset_additive_over_run:
  assumes "restoresStoredOffset (set_stepOffset w (a, b)) events"
  shows "currentStep (observeAfter (set_stepOffset w (a, b)) events)
           = a + stepsAdvanced (set_stepOffset w (a, b)) events
               + controller_currentStep (stateController (observeAfter (set_stepOffset w (a, b)) events))
     \<and> totalSteps (observeAfter (set_stepOffset w (a, b)) events)
           = b + stepsAdvanced (set_stepOffset w (a, b)) events
               + controller_totalSteps (stateController (observeAfter (set_stepOffset w (a, b)) events))
     \<and> (oneStepPrompters (set_stepOffset w (a, b)) events \<longrightarrow>
          currentStep (observeAfter (set_stepOffset w (a, b)) events)
            = a + controller_currentStep (stateController (observeAfter (set_stepOffset w (a, b)) events))
          \<and> totalSteps (observeAfter (set_stepOffset w (a, b)) events)
            = b + controller_totalSteps (stateController (observeAfter (set_stepOffset w (a, b)) events)))"
proof -
  have start: "wizard_stepOffset (set_stepOffset w (a, b)) = (a, b)"
    by (simp add: set_stepOffset_def)
  from observeAfter_offset [OF assms] start
  have "wizard_stepOffset (observeAfter (set_stepOffset w (a, b)) events)
          = (a + stepsAdvanced (set_stepOffset w (a, b)) events,
             b + stepsAdvanced (set_stepOffset w (a, b)) events)"
    by simp
  then show ?thesis
    by (simp add: currentStep_def totalSteps_def oneStepPrompters_advance)
qed

theorem stepOffset_additive_over_run_witness:
  "restoresStoredOffset (set_stepOffset (exampleWizard [] None) (4, 7)) exampleRun
   \<and> currentStep (observeAfter (set_stepOffset (exampleWizard [] None) (4, 7)) exampleRun) = 7
   \<and> totalSteps (observeAfter (set_stepOffset (exampleWizard [] None) (4, 7)) exampleRun) = 11
   \<and> restoresStoredOffset (set_stepOffset (exampleWizard [] None) (4, 7)) exampleOneStepRun
   \<and> oneStepPrompters (set_stepOffset (exampleWizard [] None) (4, 7)) exampleOneStepRun
   \<and> currentStep (observeAfter (set_stepOffset (exampleWizard [] None) (4, 7)) exampleOneStepRun) = 5
   \<and> totalSteps (observeAfter (set_stepOffset (exampleWizard [] None) (4, 7)) exampleOneStepRun) = 9"
proof -
  let ?w = "set_stepOffset (exampleWizard [] None) (4, 7)"
  have h1: "restoresStoredOffset ?w exampleRun"
    by (simp add: exampleRun_def set_stepOffset_def exampleStateWithCache_def example_defs)
  have h2: "restoresStoredOffset ?w exampleOneStepRun"
    by (simp add: exampleOneStepRun_def set_stepOffset_def exampleStateWithCache_def example_defs)
  have h3: "oneStepPrompters ?w exampleOneStepRun"
    by (simp add: exampleOneStepRun_def set_stepOffset_def exampleStateWithCache_def example_defs)
  have adv: "stepsAdvanced ?w exampleRun = 2"
    by (simp add: exampleRun_def set_stepOffset_def exampleStateWithCache_def example_defs)
  have c1: "stateController (observeAfter ?w exampleRun) = exampleController [BoundStep ''name'']"
    by (simp add: exampleRun_def set_stepOffset_def exampleStateWithCache_def example_defs)
  have c2: "stateController (observeAfter ?w exampleOneStepRun)
              = exampleController [BoundStep ''name'']"
    by (simp add: exampleOneStepRun_def set_stepOffset_def exampleStateWithCache_def example_defs)
  have n: "controller_currentStep (exampleController [BoundStep ''name'']) = 1"
    "controller_totalSteps (exampleController [BoundStep ''name'']) = 2"
    by (simp_all add: exampleController_def)
  from stepOffset_additive_over_run [OF h1] adv c1 n
  have r1: "currentStep (observeAfter ?w exampleRun) = 7"
    "totalSteps (observeAfter ?w exampleRun) = 11"
    by simp_all
  from stepOffset_additive_over_run [OF h2] h3 c2 n
  have r2: "currentStep (observeAfter ?w exampleOneStepRun) = 5"
    "totalSteps (observeAfter ?w exampleOneStepRun) = 9"
    by simp_all
  from h1 h2 h3 r1 r2 show ?thesis by (intro conjI)
qed

text \<open>
  With a prompter of more than one step the advance shows: the offset is set to
  \<open>[0, 0]\<close>, a prompter of three steps is answered, and the wizard's \<open>currentStep\<close>
  is then 2 more than the controller's.
\<close>

theorem stepOffset_additive_counterexample:
  "currentStep (fst (snd (promptUser (set_stepOffset (exampleWizard [] None) (0, 0))
       exampleStateWithCache (exampleProvider 3) None (respondWith (Answer ''x'')))))
     \<noteq> 0 + controller_currentStep (stateController (fst (snd (promptUser
           (set_stepOffset (exampleWizard [] None) (0, 0))
           exampleStateWithCache (exampleProvider 3) None (respondWith (Answer ''x''))))))"
  by (simp add: promptUser_def promptUser_setup_def promptUser_settle_def set_stepOffset_def
      exampleWizard_def exampleStateWithCache_def exampleProvider_def examplePrompter_def
      respondWith_def restoredOffset_def emptyCache_def configure_def currentStep_def
      totalSteps_def isValidResponse_def exampleController_def Let_def)

end
